theory Spec2Isabelle
  imports Main "HOL-Library.Word"
begin

section \<open>The world outside the server\<close>

text \<open>
  \<^verbatim>\<open>server.js\<close> is an Express application with four route handlers. Each handler is
  a straight line of calls to three libraries (the Supabase client, \<^verbatim>\<open>rss-parser\<close>,
  \<^verbatim>\<open>axios\<close>) with the source's own branching around them. The libraries and the
  services behind them are not part of the repository, so they are parameters of the
  model: a \<open>world\<close> holds the two tables the server touches, the environment, the clock,
  and one answer function per remote call. A handler takes the world and the request and
  returns the response together with the world afterwards; every library call is
  appended to \<open>trace\<close>, so that "no call was made" is a statement about the trace.

  An awaited call either resolves to a value or throws; \<open>Rejected\<close> carries the
  message of the exception.
\<close>

datatype 'a js_result = Resolved 'a | Rejected string

text \<open>
  A JavaScript string is a sequence of 16-bit code units. The handlers compare, test for
  emptiness, concatenate and pass on most of their strings, which does not depend on what
  a character is; those strings are \<open>string\<close>. The one operation that looks at the
  characters is \<^verbatim>\<open>trim\<close>, applied to the text of the completion: that text, and the
  \<open>topArticles\<close> made from it, are kept as code units.
\<close>

type_synonym code_unit = "16 word"

type_synonym js_text = "code_unit list"

text \<open>
  The Supabase query builder does not throw on a failed query: it resolves to
  \<^verbatim>\<open>{ data, error }\<close> with \<open>error\<close> set. The model keeps both: a table operation
  is in one of three modes, working, answering with an error object, or throwing.
\<close>

datatype store_fault = NoFault | ErrorReply string | Exception string

record 'a reply =
  data :: "'a option"
  error :: "string option"

record user_row =
  uid :: string
  profile :: string

record scan_log_row =
  scan_date :: int

text \<open>
  A parsed feed as \<^verbatim>\<open>rss-parser\<close> hands it over. Every field of an item may be
  missing (\<^verbatim>\<open>undefined\<close>), which is \<open>None\<close>.
\<close>

record feed_item =
  guid :: "string option"
  title :: "string option"
  link :: "string option"
  pubDate :: "string option"
  content :: "string option"
  contentSnippet :: "string option"

record feed =
  items :: "feed_item list"

text \<open>
  The calls a handler can make, in the order they appear in the trace. Times are
  milliseconds since the epoch, the value of a JavaScript \<^verbatim>\<open>Date\<close>.
\<close>

datatype call =
    AuthDeleteUser string
  | UsersDelete string
  | ParseURL "string option"
  | ScanLogsSelect int
  | CompletionsPost string string
  | ScanLogsInsert int

record world =
  users :: "user_row list"
  scan_logs :: "scan_log_row list"
  auth_reply :: "string \<Rightarrow> string option js_result"
  users_fault :: store_fault
  select_fault :: store_fault
  insert_fault :: store_fault
  feed_reply :: "string option \<Rightarrow> feed option js_result"
  completion_reply :: "string \<Rightarrow> js_text option list option js_result"
  OPENAI_API_KEY :: "string option"
  now :: int
  now_at_insert :: int
  local_midnight :: "int \<Rightarrow> int"
  date_parse :: "string \<Rightarrow> int option"
  trace :: "call list"

text \<open>
  \<^item> \<open>auth_reply w userId\<close> is what \<^verbatim>\<open>auth.admin.deleteUser(userId)\<close> resolves to: the
    message of \<^verbatim>\<open>error\<close>, or \<open>None\<close> when \<^verbatim>\<open>error\<close> is null.
  \<^item> \<open>feed_reply w url\<close> is what \<^verbatim>\<open>parser.parseURL(url)\<close> does; the url is \<open>None\<close> when
    the handler passes \<^verbatim>\<open>undefined\<close>. A resolved \<open>None\<close> is a null result.
  \<^item> \<open>completion_reply w prompt\<close> is what the POST to the completion API does. A resolved
    value is \<^verbatim>\<open>data.choices\<close> (\<open>None\<close> when the field is missing), each choice given
    by its \<^verbatim>\<open>text\<close> (\<open>None\<close> when missing).
  \<^item> \<open>local_midnight w t\<close> is the effect of \<^verbatim>\<open>setHours(0, 0, 0, 0)\<close> on the time \<open>t\<close> in
    the server's time zone, and \<open>date_parse w s\<close> the time value of \<^verbatim>\<open>new Date(s)\<close> for a
    string \<open>s\<close>, \<open>None\<close> for an invalid date.
  \<^item> \<open>now w\<close> is the clock at the first \<^verbatim>\<open>new Date()\<close> of a request, \<open>now_at_insert w\<close>
    at the second one, which stamps the scan-log row.
\<close>

definition record_call :: "call \<Rightarrow> world \<Rightarrow> world" where
  "record_call c w = w\<lparr>trace := trace w @ [c]\<rparr>"

subsection \<open>The library calls\<close>

definition auth_admin_deleteUser :: "world \<Rightarrow> string \<Rightarrow> string option js_result \<times> world" where
  "auth_admin_deleteUser w userId = (auth_reply w userId, record_call (AuthDeleteUser userId) w)"

text \<open>\<^verbatim>\<open>from('users').delete().eq('id', userId).select('*')\<close>: the matching rows leave the table
  and come back as \<open>data\<close>.\<close>

definition users_delete_eq :: "world \<Rightarrow> string \<Rightarrow> user_row list reply js_result \<times> world" where
  "users_delete_eq w userId =
     (let w1 = record_call (UsersDelete userId) w in
      case users_fault w of
        NoFault \<Rightarrow>
          (Resolved \<lparr>data = Some (filter (\<lambda>r. uid r = userId) (users w)), error = None\<rparr>,
           w1\<lparr>users := filter (\<lambda>r. uid r \<noteq> userId) (users w)\<rparr>)
      | ErrorReply m \<Rightarrow> (Resolved \<lparr>data = None, error = Some m\<rparr>, w1)
      | Exception m \<Rightarrow> (Rejected m, w1))"

text \<open>\<^verbatim>\<open>from('scan_logs').select('*').gte('scan_date', t)\<close>.\<close>

definition scan_logs_select_gte :: "world \<Rightarrow> int \<Rightarrow> scan_log_row list reply js_result \<times> world" where
  "scan_logs_select_gte w t =
     (let w1 = record_call (ScanLogsSelect t) w in
      case select_fault w of
        NoFault \<Rightarrow> (Resolved \<lparr>data = Some (filter (\<lambda>r. t \<le> scan_date r) (scan_logs w)), error = None\<rparr>, w1)
      | ErrorReply m \<Rightarrow> (Resolved \<lparr>data = None, error = Some m\<rparr>, w1)
      | Exception m \<Rightarrow> (Rejected m, w1))"

text \<open>\<^verbatim>\<open>from('scan_logs').insert([{ scan_date: t }])\<close>.\<close>

definition scan_logs_insert :: "world \<Rightarrow> int \<Rightarrow> unit reply js_result \<times> world" where
  "scan_logs_insert w t =
     (let w1 = record_call (ScanLogsInsert t) w in
      case insert_fault w of
        NoFault \<Rightarrow> (Resolved \<lparr>data = None, error = None\<rparr>, w1\<lparr>scan_logs := scan_logs w @ [\<lparr>scan_date = t\<rparr>]\<rparr>)
      | ErrorReply m \<Rightarrow> (Resolved \<lparr>data = None, error = Some m\<rparr>, w1)
      | Exception m \<Rightarrow> (Rejected m, w1))"

definition parser_parseURL :: "world \<Rightarrow> string option \<Rightarrow> feed option js_result \<times> world" where
  "parser_parseURL w url = (feed_reply w url, record_call (ParseURL url) w)"

text \<open>\<^verbatim>\<open>axios.post\<close> to the completion API; the call carries the key and the prompt.\<close>

definition axios_post_completions ::
  "world \<Rightarrow> string \<Rightarrow> string \<Rightarrow> js_text option list option js_result \<times> world" where
  "axios_post_completions w key prompt =
     (completion_reply w prompt, record_call (CompletionsPost key prompt) w)"

section \<open>Responses\<close>

record article =
  article_id :: string
  article_title :: "string option"
  article_link :: "string option"
  article_pubDate :: "string option"
  article_content :: string

datatype body =
    Message string
  | ScanDone bool
  | Articles "article list" js_text

type_synonym response = "nat \<times> body"

section \<open>DELETE /delete-user/:userId\<close>

text \<open>Lines 39 to 56: the deletion from the users table and the three answers to it.\<close>

definition delete_from_users_table :: "world \<Rightarrow> string \<Rightarrow> response \<times> world" where
  "delete_from_users_table w userId =
     (case users_delete_eq w userId of
        (Rejected e, w1) \<Rightarrow> ((500, Message ''Unexpected error occurred while deleting user.''), w1)
      | (Resolved r, w1) \<Rightarrow>
          (case error r of
             Some m \<Rightarrow> ((500, Message (''Failed to delete user from users table: '' @ m)), w1)
           | None \<Rightarrow>
               (case data r of
                  None \<Rightarrow> ((404, Message ''No user was deleted from users table. Please ensure the user exists and you have the right permissions.''), w1)
                | Some rows \<Rightarrow>
                    if length rows = 0
                    then ((404, Message ''No user was deleted from users table. Please ensure the user exists and you have the right permissions.''), w1)
                    else ((200, Message ''User deleted successfully from both authentication and users table.''), w1))))"

definition delete_user_handler :: "world \<Rightarrow> string \<Rightarrow> response \<times> world" where
  "delete_user_handler w userId =
     (case auth_admin_deleteUser w userId of
        (Rejected e, w1) \<Rightarrow> ((500, Message ''Unexpected error occurred while deleting user.''), w1)
      | (Resolved authError, w1) \<Rightarrow>
          (case authError of
             None \<Rightarrow> delete_from_users_table w1 userId
           | Some message \<Rightarrow>
               if message = ''User not found''
               then delete_from_users_table w1 userId
               else ((500, Message (''Failed to delete user from authentication: '' @ message)), w1)))"

section \<open>POST /validate-feed\<close>

record validate_feed_body =
  url :: "string option"

text \<open>The body is destructured without a check, so a body with no \<^verbatim>\<open>url\<close> passes
  \<^verbatim>\<open>undefined\<close> to the parser. \<^verbatim>\<open>!feed\<close> holds for a null result only: any feed
  object, also one with no items, is truthy.\<close>

definition validate_feed_handler :: "world \<Rightarrow> validate_feed_body \<Rightarrow> response \<times> world" where
  "validate_feed_handler w b =
     (case parser_parseURL w (url b) of
        (Rejected e, w1) \<Rightarrow> ((500, Message ''Error parsing RSS feed''), w1)
      | (Resolved None, w1) \<Rightarrow> ((400, Message ''Invalid RSS feed format''), w1)
      | (Resolved (Some f), w1) \<Rightarrow> ((200, Message ''RSS feed is valid''), w1))"

section \<open>GET /check-scan\<close>

text \<open>\<^verbatim>\<open>new Date(today.setHours(0, 0, 0, 0)).toISOString()\<close>: the ISO string keeps the
  milliseconds, so it denotes the same time value, and the model keeps the number.\<close>

definition startOfToday :: "world \<Rightarrow> int" where
  "startOfToday w = local_midnight w (now w)"

definition check_scan_handler :: "world \<Rightarrow> response \<times> world" where
  "check_scan_handler w =
     (case scan_logs_select_gte w (startOfToday w) of
        (Rejected e, w1) \<Rightarrow> ((500, Message ''Unexpected error occurred while checking scan logs.''), w1)
      | (Resolved r, w1) \<Rightarrow>
          (case error r of
             Some m \<Rightarrow> ((500, Message ''Error checking scan logs.''), w1)
           | None \<Rightarrow>
               (case data r of
                  None \<Rightarrow> ((200, ScanDone False), w1)
                | Some rows \<Rightarrow>
                    if length rows = 0 then ((200, ScanDone False), w1)
                    else ((200, ScanDone True), w1))))"

section \<open>POST /fetch-articles\<close>

record fetch_articles_body =
  feeds :: "string list option"
  openAiContext :: "string option"

text \<open>
  The model covers bodies whose fields, when present, have the types the handler expects:
  \<open>feeds\<close> an array of strings, \<open>openAiContext\<close> a string. A missing field is \<open>None\<close>.

  JavaScript values the handler relies on: a string is truthy when it is not empty, and
  a template literal prints \<^verbatim>\<open>undefined\<close> as the word.
\<close>

definition truthy :: "string option \<Rightarrow> bool" where
  "truthy v = (case v of None \<Rightarrow> False | Some s \<Rightarrow> s \<noteq> [])"

definition template :: "string option \<Rightarrow> string" where
  "template v = (case v of None \<Rightarrow> ''undefined'' | Some s \<Rightarrow> s)"

text \<open>\<^verbatim>\<open>item.content || item.contentSnippet || ''\<close>\<close>

definition content_or_snippet :: "feed_item \<Rightarrow> string" where
  "content_or_snippet item =
     (if truthy (content item) then the (content item)
      else if truthy (contentSnippet item) then the (contentSnippet item)
      else [])"

text \<open>\<^verbatim>\<open>new Date(item.pubDate) >= new Date(startOfToday)\<close>: an invalid date compares as
  NaN, which is not greater than or equal to anything; \<^verbatim>\<open>new Date(undefined)\<close> is invalid.\<close>

definition new_Date :: "world \<Rightarrow> string option \<Rightarrow> int option" where
  "new_Date w v = (case v of None \<Rightarrow> None | Some s \<Rightarrow> date_parse w s)"

definition published_today :: "world \<Rightarrow> int \<Rightarrow> feed_item \<Rightarrow> bool" where
  "published_today w start item =
     (case new_Date w (pubDate item) of None \<Rightarrow> False | Some t \<Rightarrow> start \<le> t)"

definition make_article :: "string \<Rightarrow> feed_item \<Rightarrow> article" where
  "make_article feedUrl item =
     \<lparr>article_id = feedUrl @ ''_'' @ template (guid item),
      article_title = title item,
      article_link = link item,
      article_pubDate = pubDate item,
      article_content = content_or_snippet item\<rparr>"

text \<open>
  The loop over \<open>feeds\<close> (lines 117 to 137), with \<open>articles\<close> as the accumulator that
  \<^verbatim>\<open>push\<close> extends. \<open>Inl feedUrl\<close> is the early return from the inner \<^verbatim>\<open>catch\<close>:
  it is reached when \<^verbatim>\<open>parseURL\<close> throws, and also when it resolves to null, since
  \<^verbatim>\<open>feed.items\<close> then throws inside the same \<^verbatim>\<open>try\<close>.
\<close>

fun feed_loop :: "world \<Rightarrow> int \<Rightarrow> string list \<Rightarrow> article list \<Rightarrow> (string + article list) \<times> world" where
  "feed_loop w start [] articles = (Inr articles, w)"
| "feed_loop w start (feedUrl # rest) articles =
     (case parser_parseURL w (Some feedUrl) of
        (Rejected e, w1) \<Rightarrow> (Inl feedUrl, w1)
      | (Resolved None, w1) \<Rightarrow> (Inl feedUrl, w1)
      | (Resolved (Some f), w1) \<Rightarrow>
          (let todayItems = filter (published_today w1 start) (items f)
           in feed_loop w1 start rest (articles @ map (make_article feedUrl) todayItems)))"

definition newline :: char where
  "newline = CHR 0x0A"

definition instruction :: "string option \<Rightarrow> string" where
  "instruction ctx =
     ''You act as an editor of the newsfeed and your job is to pick '' @ template ctx @
     ''. You will be given article previews. When responding, list top 3 article IDs (as a comma-separated list - no text is necessary) you feel are the most prominent. '' @
     [newline, newline]"

definition article_block :: "article \<Rightarrow> string" where
  "article_block a =
     ''***ID '' @ article_id a @ '': '' @ [newline] @ article_content a @ [newline] @ ''***''"

text \<open>\<^verbatim>\<open>Array.prototype.join\<close>\<close>

fun join :: "string \<Rightarrow> string list \<Rightarrow> string" where
  "join sep [] = []"
| "join sep [x] = x"
| "join sep (x # y # ys) = x @ sep @ join sep (y # ys)"

definition promptText :: "article list \<Rightarrow> string" where
  "promptText articles = join [newline] (map article_block articles)"

text \<open>
  \<^verbatim>\<open>String.prototype.trim\<close> removes the leading and the trailing white space and line
  terminators of ECMAScript: tab, line feed, vertical tab, form feed, carriage return,
  space, no-break space (U+00A0), the byte order mark (U+FEFF), the line and paragraph
  separators (U+2028, U+2029), and the other space separators of Unicode (U+1680, U+2000
  to U+200A, U+202F, U+205F, U+3000). All of them are single code units.
\<close>

definition white_space :: "code_unit \<Rightarrow> bool" where
  "white_space c =
     (c \<in> set [0x0009, 0x000A, 0x000B, 0x000C, 0x000D, 0x0020, 0x00A0, 0x1680,
                0x2028, 0x2029, 0x202F, 0x205F, 0x3000, 0xFEFF]
      \<or> (0x2000 \<le> c \<and> c \<le> 0x200A))"

definition trim :: "js_text \<Rightarrow> js_text" where
  "trim s = rev (dropWhile white_space (rev (dropWhile white_space s)))"

text \<open>\<^verbatim>\<open>openAiResponse.data.choices[0].text\<close>: \<open>None\<close> where the chain throws a TypeError
  (no \<open>choices\<close>, an empty array, or a first choice with no \<open>text\<close>).\<close>

definition first_choice_text :: "js_text option list option \<Rightarrow> js_text option" where
  "first_choice_text choices =
     (case choices of None \<Rightarrow> None | Some [] \<Rightarrow> None | Some (c # cs) \<Rightarrow> c)"

text \<open>Lines 150 to 179: the call of the completion API, the scan-log insert and the
  answer. The result of the insert is not looked at; only an exception reaches the
  \<^verbatim>\<open>catch\<close>.\<close>

definition rank_and_log :: "world \<Rightarrow> string \<Rightarrow> string \<Rightarrow> article list \<Rightarrow> response \<times> world" where
  "rank_and_log w key prompt articles =
     (case axios_post_completions w key prompt of
        (Rejected e, w1) \<Rightarrow> ((500, Message ''Error during OpenAI request''), w1)
      | (Resolved choices, w1) \<Rightarrow>
          (case first_choice_text choices of
             None \<Rightarrow> ((500, Message ''Error during OpenAI request''), w1)
           | Some text \<Rightarrow>
               (let topArticles = trim text in
                case scan_logs_insert w1 (now_at_insert w1) of
                  (Rejected e, w2) \<Rightarrow> ((500, Message ''Error during OpenAI request''), w2)
                | (Resolved r, w2) \<Rightarrow> ((200, Articles articles topArticles), w2))))"

text \<open>The handler. With no \<open>feeds\<close> in the body, \<^verbatim>\<open>for (... of undefined)\<close> throws a
  TypeError that the outer \<^verbatim>\<open>catch\<close> answers.\<close>

definition fetch_articles_handler :: "world \<Rightarrow> fetch_articles_body \<Rightarrow> response \<times> world" where
  "fetch_articles_handler w b =
     (case feeds b of
        None \<Rightarrow> ((500, Message ''Error fetching articles''), w)
      | Some fs \<Rightarrow>
          (case feed_loop w (startOfToday w) fs [] of
             (Inl feedUrl, w1) \<Rightarrow> ((500, Message (''Error fetching articles from '' @ feedUrl)), w1)
           | (Inr articles, w1) \<Rightarrow>
               (let prompt = instruction (openAiContext b) @ promptText articles in
                if \<not> truthy (OPENAI_API_KEY w1)
                then ((500, Message ''OpenAI API key is not set.''), w1)
                else rank_and_log w1 (the (OPENAI_API_KEY w1)) prompt articles)))"

section \<open>Vocabulary of the properties\<close>

text \<open>A feed url parses when \<^verbatim>\<open>parseURL\<close> resolves to a feed object.\<close>

definition parsed_feed :: "world \<Rightarrow> string \<Rightarrow> feed option" where
  "parsed_feed w u = (case feed_reply w (Some u) of Resolved (Some f) \<Rightarrow> Some f | _ \<Rightarrow> None)"

definition parses :: "world \<Rightarrow> string \<Rightarrow> bool" where
  "parses w u = (parsed_feed w u \<noteq> None)"

text \<open>The articles one feed contributes: its items dated at or after \<open>start\<close>, in the
  order of the feed.\<close>

definition todays_articles :: "world \<Rightarrow> int \<Rightarrow> string \<Rightarrow> article list" where
  "todays_articles w start u =
     (case parsed_feed w u of
        None \<Rightarrow> []
      | Some f \<Rightarrow> map (make_article u) (filter (published_today w start) (items f)))"

definition parse_calls :: "string list \<Rightarrow> call list" where
  "parse_calls us = map (\<lambda>u. ParseURL (Some u)) us"

text \<open>The calls a handler added to the trace.\<close>

definition new_calls :: "world \<Rightarrow> world \<Rightarrow> call list" where
  "new_calls w w' = drop (length (trace w)) (trace w')"

definition is_completion_call :: "call \<Rightarrow> bool" where
  "is_completion_call c = (case c of CompletionsPost k p \<Rightarrow> True | _ \<Rightarrow> False)"

definition is_insert_call :: "call \<Rightarrow> bool" where
  "is_insert_call c = (case c of ScanLogsInsert t \<Rightarrow> True | _ \<Rightarrow> False)"

text \<open>The text of the first completion when the call of the completion API succeeds and
  the answer has one, \<open>None\<close> when the call throws or the answer has none.\<close>

definition model_text :: "world \<Rightarrow> string \<Rightarrow> js_text option" where
  "model_text w prompt =
     (case completion_reply w prompt of Rejected e \<Rightarrow> None | Resolved choices \<Rightarrow> first_choice_text choices)"

definition status :: "response \<times> world \<Rightarrow> nat" where
  "status r = fst (fst r)"

text \<open>The authentication step of /delete-user lets the request through when the
  deletion succeeded or the user was reported as not found.\<close>

definition auth_passed :: "world \<Rightarrow> string \<Rightarrow> bool" where
  "auth_passed w userId =
     (auth_reply w userId = Resolved None \<or> auth_reply w userId = Resolved (Some ''User not found''))"

subsection \<open>A concrete world\<close>

text \<open>
  The server at 10:00 UTC on 2 May 2024, in the UTC time zone. Feed A has an item of
  08:00 that day and one of the last second of the day before; feed B has one item
  stamped exactly at midnight, with the same guid as the first item of A, an empty
  \<open>content\<close> and a snippet. Any other url does not resolve, and the parser throws on
  \<^verbatim>\<open>undefined\<close>.
\<close>

definition utc_midnight :: "int \<Rightarrow> int" where
  "utc_midnight t = t - t mod 86400000"

definition item_a1 :: feed_item where
  "item_a1 = \<lparr>guid = Some ''g1'', title = Some ''Morning'', link = Some ''https://a.example/1'',
     pubDate = Some ''Thu, 02 May 2024 08:00:00 GMT'', content = Some ''full text'',
     contentSnippet = Some ''short''\<rparr>"

definition item_a0 :: feed_item where
  "item_a0 = \<lparr>guid = Some ''g0'', title = Some ''Late'', link = Some ''https://a.example/0'',
     pubDate = Some ''Wed, 01 May 2024 23:59:59 GMT'', content = None,
     contentSnippet = Some ''old''\<rparr>"

definition item_b1 :: feed_item where
  "item_b1 = \<lparr>guid = Some ''g1'', title = Some ''Midnight'', link = None,
     pubDate = Some ''Thu, 02 May 2024 00:00:00 GMT'', content = Some [],
     contentSnippet = Some ''teaser''\<rparr>"

definition url_a :: string where
  "url_a = ''https://a.example/rss''"

definition url_b :: string where
  "url_b = ''https://b.example/rss''"

definition url_bad :: string where
  "url_bad = ''https://bad.example/rss''"

definition demo_feed_reply :: "string option \<Rightarrow> feed option js_result" where
  "demo_feed_reply u =
     (if u = None then Rejected ''Cannot read properties of undefined''
      else if u = Some url_a then Resolved (Some \<lparr>items = [item_a1, item_a0]\<rparr>)
      else if u = Some url_b then Resolved (Some \<lparr>items = [item_b1]\<rparr>)
      else Rejected ''getaddrinfo ENOTFOUND'')"

definition demo_auth_reply :: "string \<Rightarrow> string option js_result" where
  "demo_auth_reply u =
     (if u = ''u1'' then Resolved None
      else if u = ''u9'' then Resolved (Some ''User not found'')
      else Resolved (Some ''Database error deleting user''))"

text \<open>The completion API answers every prompt with the text \<open>a, b\<close> after a no-break
  space, followed by a space and a line feed; trimmed, it is \<open>a, b\<close>.\<close>

definition demo_answer :: js_text where
  "demo_answer = [0x00A0, 0x0061, 0x002C, 0x0020, 0x0062, 0x0020, 0x000A]"

definition demo_top :: js_text where
  "demo_top = [0x0061, 0x002C, 0x0020, 0x0062]"

definition demo_world :: world where
  "demo_world =
     \<lparr>users = [\<lparr>uid = ''u1'', profile = ''ada''\<rparr>, \<lparr>uid = ''u2'', profile = ''bob''\<rparr>],
      scan_logs = [],
      auth_reply = demo_auth_reply,
      users_fault = NoFault,
      select_fault = NoFault,
      insert_fault = NoFault,
      feed_reply = demo_feed_reply,
      completion_reply = (\<lambda>p. Resolved (Some [Some demo_answer])),
      OPENAI_API_KEY = Some ''sk-demo'',
      now = 1714644000000,
      now_at_insert = 1714644003000,
      local_midnight = utc_midnight,
      date_parse = map_of
        [(''Thu, 02 May 2024 08:00:00 GMT'', 1714636800000),
         (''Wed, 01 May 2024 23:59:59 GMT'', 1714607999000),
         (''Thu, 02 May 2024 00:00:00 GMT'', 1714608000000)],
      trace = []\<rparr>"

definition article_a1 :: article where
  "article_a1 = \<lparr>article_id = ''https://a.example/rss_g1'', article_title = Some ''Morning'',
     article_link = Some ''https://a.example/1'',
     article_pubDate = Some ''Thu, 02 May 2024 08:00:00 GMT'', article_content = ''full text''\<rparr>"

definition article_b1 :: article where
  "article_b1 = \<lparr>article_id = ''https://b.example/rss_g1'', article_title = Some ''Midnight'',
     article_link = None,
     article_pubDate = Some ''Thu, 02 May 2024 00:00:00 GMT'', article_content = ''teaser''\<rparr>"

section \<open>Auxiliary facts\<close>

text \<open>The definitions to unfold when a handler is run on a concrete world.\<close>

lemmas handler_defs =
  delete_user_handler_def delete_from_users_table_def validate_feed_handler_def
  check_scan_handler_def fetch_articles_handler_def rank_and_log_def
  auth_admin_deleteUser_def users_delete_eq_def scan_logs_select_gte_def scan_logs_insert_def
  parser_parseURL_def axios_post_completions_def record_call_def startOfToday_def
  truthy_def template_def content_or_snippet_def new_Date_def published_today_def
  make_article_def instruction_def article_block_def promptText_def newline_def
  white_space_def trim_def first_choice_text_def Let_def

lemmas property_defs =
  parsed_feed_def parses_def todays_articles_def parse_calls_def new_calls_def
  is_completion_call_def is_insert_call_def model_text_def status_def

lemmas demo_defs =
  demo_world_def demo_feed_reply_def demo_auth_reply_def utc_midnight_def
  item_a1_def item_a0_def item_b1_def url_a_def url_b_def url_bad_def
  article_a1_def article_b1_def demo_answer_def demo_top_def

lemma trace_record_call [simp]: "trace (record_call c w) = trace w @ [c]"
  by (simp add: record_call_def)

lemma record_call_trace_update [simp]: "(record_call c w)\<lparr>trace := t\<rparr> = w\<lparr>trace := t\<rparr>"
  by (simp add: record_call_def)

lemma published_today_trace [simp]: "published_today (w\<lparr>trace := t\<rparr>) = published_today w"
  by (simp add: published_today_def new_Date_def fun_eq_iff split: option.splits)

lemma parsed_feed_trace [simp]: "parsed_feed (w\<lparr>trace := t\<rparr>) = parsed_feed w"
  by (simp add: parsed_feed_def fun_eq_iff)

lemma parses_trace [simp]: "parses (w\<lparr>trace := t\<rparr>) = parses w"
  by (simp add: parses_def fun_eq_iff)

lemma todays_articles_trace [simp]: "todays_articles (w\<lparr>trace := t\<rparr>) = todays_articles w"
  by (simp add: todays_articles_def fun_eq_iff split: option.splits)

lemma published_today_record_call [simp]: "published_today (record_call c w) = published_today w"
  by (simp add: record_call_def)

lemma parsed_feed_record_call [simp]: "parsed_feed (record_call c w) = parsed_feed w"
  by (simp add: record_call_def)

lemma parses_record_call [simp]: "parses (record_call c w) = parses w"
  by (simp add: record_call_def)

lemma todays_articles_record_call [simp]: "todays_articles (record_call c w) = todays_articles w"
  by (simp add: record_call_def)

lemma model_text_trace [simp]: "model_text (w\<lparr>trace := t\<rparr>) = model_text w"
  by (simp add: model_text_def fun_eq_iff)

lemma parsed_feed_Some: "feed_reply w (Some u) = Resolved (Some f) \<Longrightarrow> parsed_feed w u = Some f"
  by (simp add: parsed_feed_def)

lemma parses_obtain: "parses w u \<Longrightarrow> \<exists>f. feed_reply w (Some u) = Resolved (Some f)"
  by (auto simp: parses_def parsed_feed_def split: js_result.splits option.splits)

lemma new_calls_append [simp]: "new_calls w (w'\<lparr>trace := trace w @ cs\<rparr>) = cs"
  by (simp add: new_calls_def)

lemma new_calls_same [simp]: "new_calls w w = []"
  by (simp add: new_calls_def)

lemma parse_calls_no_insert [simp]: "ScanLogsInsert t \<notin> set (parse_calls us)"
  by (auto simp: parse_calls_def)

lemma parse_calls_plain [simp]:
  "c \<in> set (parse_calls us) \<Longrightarrow> \<not> is_completion_call c \<and> \<not> is_insert_call c"
  by (auto simp: parse_calls_def is_completion_call_def is_insert_call_def)

lemma promptText_Nil [simp]: "promptText [] = []"
  by (simp add: promptText_def)

subsection \<open>Trimming\<close>

text \<open>\<open>trim\<close> cuts a run of white space off each end and nothing else: the text is the
  trimmed text between two runs of white space, and a trimmed text that is not empty
  neither starts nor ends with white space.\<close>

lemma trim_sandwich:
  "\<exists>pre post. s = pre @ trim s @ post \<and> list_all white_space pre \<and> list_all white_space post"
proof -
  let ?t = "dropWhile white_space s"
  have a: "s = takeWhile white_space s @ ?t" by simp
  have "rev (takeWhile white_space (rev ?t) @ dropWhile white_space (rev ?t)) = rev (rev ?t)"
    by (simp only: takeWhile_dropWhile_id)
  then have "rev (dropWhile white_space (rev ?t)) @ rev (takeWhile white_space (rev ?t)) = ?t"
    by (simp only: rev_append rev_rev_ident)
  then have b: "?t = trim s @ rev (takeWhile white_space (rev ?t))"
    by (simp only: trim_def)
  have c: "list_all white_space (takeWhile white_space s)"
    by (auto simp: list_all_iff dest: set_takeWhileD)
  have d: "list_all white_space (rev (takeWhile white_space (rev ?t)))"
    by (auto simp: list_all_iff dest: set_takeWhileD)
  from a b have "s = takeWhile white_space s @ trim s @ rev (takeWhile white_space (rev ?t))"
    by metis
  with c d show ?thesis by blast
qed

lemma trim_ends:
  assumes "trim s \<noteq> []"
  shows "\<not> white_space (hd (trim s)) \<and> \<not> white_space (last (trim s))"
proof -
  let ?t = "dropWhile white_space s"
  let ?u = "dropWhile white_space (rev ?t)"
  from assms have u: "?u \<noteq> []" by (simp add: trim_def)
  then have "rev ?t \<noteq> []" by (metis dropWhile.simps(1))
  then have t: "?t \<noteq> []" by simp
  have "last (trim s) = hd ?u" using u by (simp add: trim_def last_rev)
  moreover have "\<not> white_space (hd ?u)" using u by (rule hd_dropWhile)
  moreover have "hd (trim s) = last ?u" using u by (simp add: trim_def hd_rev)
  moreover have "last ?u = last (rev ?t)"
    using u by (metis last_appendR takeWhile_dropWhile_id)
  moreover have "last (rev ?t) = hd ?t" using t by (simp add: last_rev)
  moreover have "\<not> white_space (hd ?t)" using t by (rule hd_dropWhile)
  ultimately show ?thesis by simp
qed

text \<open>A no-break space, a byte order mark, an em space, an ideographic space and a line
  separator are trimmed; U+0085 and the zero width space U+200B are not white space.\<close>

lemma trim_examples:
  "trim [0x00A0, 0x0061, 0x002C, 0x0020, 0x0062, 0x00A0] = [0x0061, 0x002C, 0x0020, 0x0062]
   \<and> trim [0xFEFF, 0x2003, 0x0061, 0x3000, 0x2028] = [0x0061]
   \<and> trim [0x0085, 0x0061, 0x200B] = [0x0085, 0x0061, 0x200B]
   \<and> trim [0x0020, 0x000A] = []"
  by (simp add: trim_def white_space_def)

subsection \<open>The feed loop\<close>

text \<open>When every feed parses, the loop runs to its end, has asked for each feed once and
  in order, and has appended each feed's articles of today.\<close>

lemma feed_loop_all_parse:
  "\<forall>u\<in>set fs. parses w u \<Longrightarrow>
   feed_loop w start fs acc =
     (Inr (acc @ concat (map (todays_articles w start) fs)), w\<lparr>trace := trace w @ parse_calls fs\<rparr>)"
proof (induction fs arbitrary: w acc)
  case Nil
  then show ?case by (simp add: parse_calls_def)
next
  case (Cons u us)
  from Cons.prems obtain f where f: "feed_reply w (Some u) = Resolved (Some f)"
    using parses_obtain [of w u] by auto
  have rest: "\<forall>v\<in>set us. parses (record_call (ParseURL (Some u)) w) v"
    using Cons.prems by simp
  show ?case
    using f Cons.IH [OF rest]
    by (simp add: parser_parseURL_def parse_calls_def todays_articles_def parsed_feed_Some)
qed

text \<open>The loop leaves at the first feed that does not parse.\<close>

lemma feed_loop_first_failure:
  "\<forall>u\<in>set ok. parses w u \<Longrightarrow> \<not> parses w bad \<Longrightarrow>
   feed_loop w start (ok @ bad # rest) acc =
     (Inl bad, w\<lparr>trace := trace w @ parse_calls (ok @ [bad])\<rparr>)"
proof (induction ok arbitrary: w acc)
  case Nil
  then show ?case
    by (auto simp: parser_parseURL_def record_call_def parse_calls_def parses_def parsed_feed_def
             split: js_result.splits option.splits)
next
  case (Cons u us)
  from Cons.prems obtain f where f: "feed_reply w (Some u) = Resolved (Some f)"
    using parses_obtain [of w u] by auto
  have a: "\<forall>v\<in>set us. parses (record_call (ParseURL (Some u)) w) v"
    and b: "\<not> parses (record_call (ParseURL (Some u)) w) bad"
    using Cons.prems by simp_all
  show ?case
    using f Cons.IH [OF a b]
    by (simp add: parser_parseURL_def parse_calls_def)
qed

lemma first_failure_split:
  assumes "\<exists>u\<in>set fs. \<not> parses w u"
  shows "\<exists>ok bad rest. fs = ok @ bad # rest \<and> (\<forall>u\<in>set ok. parses w u) \<and> \<not> parses w bad"
proof -
  from split_list_first_prop [OF assms]
  obtain ok bad rest where "fs = ok @ bad # rest" "\<not> parses w bad" "\<forall>u\<in>set ok. \<not> \<not> parses w u"
    by blast
  then show ?thesis by auto
qed

subsection \<open>The handler of /fetch-articles, case by case\<close>

lemma rank_and_log_cases:
  "rank_and_log w key prompt articles =
     (case model_text w prompt of
        None \<Rightarrow> ((500, Message ''Error during OpenAI request''),
                 w\<lparr>trace := trace w @ [CompletionsPost key prompt]\<rparr>)
      | Some text \<Rightarrow>
          (case insert_fault w of
             NoFault \<Rightarrow>
               ((200, Articles articles (trim text)),
                w\<lparr>trace := trace w @ [CompletionsPost key prompt, ScanLogsInsert (now_at_insert w)],
                  scan_logs := scan_logs w @ [\<lparr>scan_date = now_at_insert w\<rparr>]\<rparr>)
           | ErrorReply m \<Rightarrow>
               ((200, Articles articles (trim text)),
                w\<lparr>trace := trace w @ [CompletionsPost key prompt, ScanLogsInsert (now_at_insert w)]\<rparr>)
           | Exception m \<Rightarrow>
               ((500, Message ''Error during OpenAI request''),
                w\<lparr>trace := trace w @ [CompletionsPost key prompt, ScanLogsInsert (now_at_insert w)]\<rparr>)))"
  by (simp add: rank_and_log_def model_text_def axios_post_completions_def scan_logs_insert_def
        record_call_def Let_def
      split: js_result.splits option.splits store_fault.splits)

lemma handler_no_feeds:
  "feeds b = None \<Longrightarrow> fetch_articles_handler w b = ((500, Message ''Error fetching articles''), w)"
  by (simp add: fetch_articles_handler_def)

lemma handler_feed_failure:
  "feeds b = Some (ok @ bad # rest) \<Longrightarrow> \<forall>u\<in>set ok. parses w u \<Longrightarrow> \<not> parses w bad \<Longrightarrow>
   fetch_articles_handler w b =
     ((500, Message (''Error fetching articles from '' @ bad)),
      w\<lparr>trace := trace w @ parse_calls (ok @ [bad])\<rparr>)"
  by (simp add: fetch_articles_handler_def feed_loop_first_failure)

lemma handler_all_parse:
  "feeds b = Some fs \<Longrightarrow> \<forall>u\<in>set fs. parses w u \<Longrightarrow>
   fetch_articles_handler w b =
     (if \<not> truthy (OPENAI_API_KEY w)
      then ((500, Message ''OpenAI API key is not set.''), w\<lparr>trace := trace w @ parse_calls fs\<rparr>)
      else rank_and_log (w\<lparr>trace := trace w @ parse_calls fs\<rparr>) (the (OPENAI_API_KEY w))
             (instruction (openAiContext b) @ promptText (concat (map (todays_articles w (startOfToday w)) fs)))
             (concat (map (todays_articles w (startOfToday w)) fs)))"
  by (simp add: fetch_articles_handler_def feed_loop_all_parse Let_def)

section \<open>DELETE /delete-user: the two steps\<close>

text \<open>An exception thrown by the authentication call is a path of its own: the outer
  \<^verbatim>\<open>catch\<close> answers it with a fixed message, and the users table is not asked.\<close>

lemma delete_user_unexpected:
  "auth_reply w userId = Rejected e \<Longrightarrow>
   delete_user_handler w userId =
     ((500, Message ''Unexpected error occurred while deleting user.''),
      record_call (AuthDeleteUser userId) w)"
  by (simp add: delete_user_handler_def auth_admin_deleteUser_def)

lemma delete_from_users_table_unexpected:
  "users_fault w = Exception e \<Longrightarrow>
   fst (delete_from_users_table w userId) =
     (500, Message ''Unexpected error occurred while deleting user.'')"
  by (simp add: delete_from_users_table_def users_delete_eq_def Let_def)

text \<open>
  C5. When the authentication subsystem answers the deletion with the error
  \<^verbatim>\<open>User not found\<close>, the handler goes on to the deletion from the users table: the rest
  of the request is that step, run after the one authentication call. When it answers
  with any other error, the response is 500 with the message of that error after
  \<^verbatim>\<open>Failed to delete user from authentication: \<close>, the only call made is the
  authentication call, and the users table is as before.
\<close>

theorem delete_user_auth_step:
  "(auth_reply w userId = Resolved (Some ''User not found'') \<longrightarrow>
      delete_user_handler w userId = delete_from_users_table (record_call (AuthDeleteUser userId) w) userId
      \<and> new_calls w (snd (delete_user_handler w userId)) = [AuthDeleteUser userId, UsersDelete userId])
   \<and> (auth_reply w userId = Resolved (Some message) \<and> message \<noteq> ''User not found'' \<longrightarrow>
      fst (delete_user_handler w userId) =
        (500, Message (''Failed to delete user from authentication: '' @ message))
      \<and> new_calls w (snd (delete_user_handler w userId)) = [AuthDeleteUser userId]
      \<and> users (snd (delete_user_handler w userId)) = users w)"
  by (auto simp: delete_user_handler_def auth_admin_deleteUser_def delete_from_users_table_def
        users_delete_eq_def record_call_def new_calls_def Let_def
      split: store_fault.splits)

text \<open>In the concrete world, user \<open>u9\<close> is unknown to the authentication subsystem and
  the deletion of \<open>u2\<close> fails there with a database error.\<close>

theorem delete_user_auth_step_witness:
  "auth_reply demo_world ''u9'' = Resolved (Some ''User not found'')
   \<and> new_calls demo_world (snd (delete_user_handler demo_world ''u9'')) = [AuthDeleteUser ''u9'', UsersDelete ''u9'']
   \<and> auth_reply demo_world ''u2'' = Resolved (Some ''Database error deleting user'')
   \<and> ''Database error deleting user'' \<noteq> ''User not found''
   \<and> fst (delete_user_handler demo_world ''u2'') =
        (500, Message ''Failed to delete user from authentication: Database error deleting user'')
   \<and> new_calls demo_world (snd (delete_user_handler demo_world ''u2'')) = [AuthDeleteUser ''u2'']
   \<and> users (snd (delete_user_handler demo_world ''u2'')) = users demo_world"
  using delete_user_auth_step [of demo_world "''u9''" "''x''"]
    delete_user_auth_step [of demo_world "''u2''" "''Database error deleting user''"]
  by (simp add: handler_defs property_defs demo_defs)

text \<open>
  C6. For a request that got past the authentication step (the deletion there succeeded,
  or the user was not found there): an error answer of the users table gives 500 with
  the table's message; no row with that id gives 404, whatever the authentication step
  said; a row with that id gives 200, and the rows with that id are gone.
\<close>

theorem delete_user_row_step:
  assumes "auth_passed w userId"
  shows "(users_fault w = ErrorReply m \<longrightarrow>
            fst (delete_user_handler w userId) =
              (500, Message (''Failed to delete user from users table: '' @ m))
            \<and> users (snd (delete_user_handler w userId)) = users w)
       \<and> (users_fault w = NoFault \<and> (\<forall>r\<in>set (users w). uid r \<noteq> userId) \<longrightarrow>
            fst (delete_user_handler w userId) =
              (404, Message ''No user was deleted from users table. Please ensure the user exists and you have the right permissions.'')
            \<and> users (snd (delete_user_handler w userId)) = users w)
       \<and> (users_fault w = NoFault \<and> (\<exists>r\<in>set (users w). uid r = userId) \<longrightarrow>
            fst (delete_user_handler w userId) =
              (200, Message ''User deleted successfully from both authentication and users table.'')
            \<and> users (snd (delete_user_handler w userId)) = filter (\<lambda>r. uid r \<noteq> userId) (users w))"
proof -
  from assms have run: "delete_user_handler w userId =
      delete_from_users_table (record_call (AuthDeleteUser userId) w) userId"
    by (auto simp: auth_passed_def delete_user_handler_def auth_admin_deleteUser_def)
  have none: "(\<forall>r\<in>set (users w). uid r \<noteq> userId) \<Longrightarrow> filter (\<lambda>r. uid r = userId) (users w) = []"
    by (simp add: filter_empty_conv)
  have keep: "(\<forall>r\<in>set (users w). uid r \<noteq> userId) \<Longrightarrow> filter (\<lambda>r. uid r \<noteq> userId) (users w) = users w"
    by (simp add: filter_id_conv)
  have some: "(\<exists>r\<in>set (users w). uid r = userId) \<Longrightarrow> filter (\<lambda>r. uid r = userId) (users w) \<noteq> []"
    by (simp add: filter_empty_conv)
  show ?thesis
    unfolding run
    using none keep some
    by (auto simp: delete_from_users_table_def users_delete_eq_def record_call_def Let_def)
qed

text \<open>User \<open>u1\<close> exists in both stores, user \<open>u9\<close> in neither.\<close>

theorem delete_user_row_step_witness:
  "auth_passed demo_world ''u1'' \<and> auth_passed demo_world ''u9''
   \<and> fst (delete_user_handler (demo_world\<lparr>users_fault := ErrorReply ''permission denied''\<rparr>) ''u1'') =
        (500, Message ''Failed to delete user from users table: permission denied'')
   \<and> users_fault demo_world = NoFault \<and> map uid (users demo_world) = [''u1'', ''u2'']
   \<and> status (delete_user_handler demo_world ''u9'') = 404
   \<and> (\<exists>r\<in>set (users demo_world). uid r = ''u1'')
   \<and> status (delete_user_handler demo_world ''u1'') = 200
   \<and> users (snd (delete_user_handler demo_world ''u1'')) = [\<lparr>uid = ''u2'', profile = ''bob''\<rparr>]"
  using delete_user_row_step [of "demo_world\<lparr>users_fault := ErrorReply ''permission denied''\<rparr>" "''u1''" "''permission denied''"]
    delete_user_row_step [of demo_world "''u9''" "''m''"]
    delete_user_row_step [of demo_world "''u1''" "''m''"]
  by (simp add: auth_passed_def handler_defs property_defs demo_defs)

section \<open>GET /check-scan\<close>

text \<open>
  C7. When the query of the scan log succeeds, the response is 200 and \<open>scanDone\<close> says
  whether some row has a \<open>scan_date\<close> at or after local midnight of the current day. The
  bound is inclusive: a row stamped exactly at midnight makes it true, a log whose only
  row is one millisecond earlier leaves it false. An error answer of the store gives 500,
  and so does an exception. The handler does not write to the scan log.
\<close>

theorem check_scan_reports_today:
  "(select_fault w = NoFault \<longrightarrow>
      fst (check_scan_handler w) =
        (200, ScanDone (\<exists>r\<in>set (scan_logs w). local_midnight w (now w) \<le> scan_date r))
      \<and> (\<lparr>scan_date = local_midnight w (now w)\<rparr> \<in> set (scan_logs w) \<longrightarrow>
            fst (check_scan_handler w) = (200, ScanDone True))
      \<and> (scan_logs w = [\<lparr>scan_date = local_midnight w (now w) - 1\<rparr>] \<longrightarrow>
            fst (check_scan_handler w) = (200, ScanDone False)))
   \<and> (select_fault w = ErrorReply m \<longrightarrow>
      fst (check_scan_handler w) = (500, Message ''Error checking scan logs.''))
   \<and> (select_fault w = Exception m \<longrightarrow>
      fst (check_scan_handler w) = (500, Message ''Unexpected error occurred while checking scan logs.''))
   \<and> scan_logs (snd (check_scan_handler w)) = scan_logs w"
proof -
  have ex: "(filter (\<lambda>r. t \<le> scan_date r) rows = []) = (\<not> (\<exists>r\<in>set rows. t \<le> scan_date r))"
    for t and rows :: "scan_log_row list"
    by (simp add: filter_empty_conv)
  have ok: "select_fault w = NoFault \<Longrightarrow>
      fst (check_scan_handler w) =
        (200, ScanDone (\<exists>r\<in>set (scan_logs w). local_midnight w (now w) \<le> scan_date r))"
    by (simp add: check_scan_handler_def scan_logs_select_gte_def startOfToday_def Let_def ex)
  have at: "\<lparr>scan_date = local_midnight w (now w)\<rparr> \<in> set (scan_logs w) \<Longrightarrow>
      \<exists>r\<in>set (scan_logs w). local_midnight w (now w) \<le> scan_date r"
    by force
  have err: "select_fault w = ErrorReply m \<Longrightarrow>
      fst (check_scan_handler w) = (500, Message ''Error checking scan logs.'')"
    by (simp add: check_scan_handler_def scan_logs_select_gte_def Let_def)
  have exc: "select_fault w = Exception m \<Longrightarrow>
      fst (check_scan_handler w) = (500, Message ''Unexpected error occurred while checking scan logs.'')"
    by (simp add: check_scan_handler_def scan_logs_select_gte_def Let_def)
  have same: "scan_logs (snd (check_scan_handler w)) = scan_logs w"
    by (simp add: check_scan_handler_def scan_logs_select_gte_def record_call_def Let_def
          split: store_fault.splits)
  show ?thesis
    using ok at err exc same by auto
qed

text \<open>Midnight of 2 May 2024 is 1714608000000; one run has a row at that instant, the
  other only a row one millisecond before it.\<close>

theorem check_scan_reports_today_witness:
  "fst (check_scan_handler (demo_world\<lparr>scan_logs := [\<lparr>scan_date = 1714607999999\<rparr>, \<lparr>scan_date = 1714608000000\<rparr>]\<rparr>))
     = (200, ScanDone True)
   \<and> local_midnight demo_world (now demo_world) = 1714608000000
   \<and> fst (check_scan_handler (demo_world\<lparr>scan_logs := [\<lparr>scan_date = 1714608000000 - 1\<rparr>]\<rparr>))
     = (200, ScanDone False)
   \<and> fst (check_scan_handler (demo_world\<lparr>select_fault := ErrorReply ''relation does not exist''\<rparr>))
     = (500, Message ''Error checking scan logs.'')
   \<and> fst (check_scan_handler (demo_world\<lparr>select_fault := Exception ''fetch failed''\<rparr>))
     = (500, Message ''Unexpected error occurred while checking scan logs.'')"
  using
    check_scan_reports_today [of "demo_world\<lparr>scan_logs := [\<lparr>scan_date = 1714607999999\<rparr>, \<lparr>scan_date = 1714608000000\<rparr>]\<rparr>" "''m''"]
    check_scan_reports_today [of "demo_world\<lparr>scan_logs := [\<lparr>scan_date = 1714608000000 - 1\<rparr>]\<rparr>" "''m''"]
    check_scan_reports_today [of "demo_world\<lparr>select_fault := ErrorReply ''relation does not exist''\<rparr>" "''relation does not exist''"]
    check_scan_reports_today [of "demo_world\<lparr>select_fault := Exception ''fetch failed''\<rparr>" "''fetch failed''"]
  by (simp add: demo_defs)

section \<open>POST /validate-feed\<close>

text \<open>
  C8. When the parser resolves to a feed object the response is 200; when it resolves to
  null the response is 400; when it throws, the response is 500 with the one fixed
  message \<^verbatim>\<open>Error parsing RSS feed\<close>, whatever the exception said. In each case the
  parser was called once, with the url of the body.
\<close>

theorem validate_feed_answers:
  "(feed_reply w (url b) = Resolved (Some f) \<longrightarrow>
      fst (validate_feed_handler w b) = (200, Message ''RSS feed is valid''))
   \<and> (feed_reply w (url b) = Resolved None \<longrightarrow>
      fst (validate_feed_handler w b) = (400, Message ''Invalid RSS feed format''))
   \<and> (feed_reply w (url b) = Rejected e \<longrightarrow>
      fst (validate_feed_handler w b) = (500, Message ''Error parsing RSS feed''))
   \<and> new_calls w (snd (validate_feed_handler w b)) = [ParseURL (url b)]"
  by (simp add: validate_feed_handler_def parser_parseURL_def record_call_def new_calls_def
        split: js_result.splits option.splits)

theorem validate_feed_answers_witness:
  "feed_reply demo_world (url \<lparr>url = Some url_b\<rparr>) = Resolved (Some \<lparr>items = [item_b1]\<rparr>)
   \<and> fst (validate_feed_handler demo_world \<lparr>url = Some url_b\<rparr>) = (200, Message ''RSS feed is valid'')
   \<and> fst (validate_feed_handler (demo_world\<lparr>feed_reply := (\<lambda>u. Resolved None)\<rparr>) \<lparr>url = Some url_b\<rparr>)
       = (400, Message ''Invalid RSS feed format'')
   \<and> feed_reply demo_world (url \<lparr>url = Some url_bad\<rparr>) = Rejected ''getaddrinfo ENOTFOUND''
   \<and> fst (validate_feed_handler demo_world \<lparr>url = Some url_bad\<rparr>) = (500, Message ''Error parsing RSS feed'')"
  using
    validate_feed_answers [of demo_world "\<lparr>url = Some url_b\<rparr>" "\<lparr>items = [item_b1]\<rparr>" "''e''"]
    validate_feed_answers [of "demo_world\<lparr>feed_reply := (\<lambda>u. Resolved None)\<rparr>" "\<lparr>url = Some url_b\<rparr>" "\<lparr>items = []\<rparr>" "''e''"]
    validate_feed_answers [of demo_world "\<lparr>url = Some url_bad\<rparr>" "\<lparr>items = []\<rparr>" "''getaddrinfo ENOTFOUND''"]
  by (simp add: demo_world_def demo_feed_reply_def url_a_def url_b_def url_bad_def)

section \<open>POST /fetch-articles: the articles\<close>

text \<open>
  C1. For a request whose feeds all parse, the articles of a 200 response are the
  concatenation, in the order of \<open>feeds\<close>, of each feed's items dated at or after the start
  of today, in the order of the feed; and the response is such a 200 response as soon as
  the credential is set, the completion API answers with a text, and the store takes
  the insert. An item is dated at or after the start of today when it has a \<open>pubDate\<close> that
  \<^verbatim>\<open>new Date\<close> can read and whose time is not before local midnight. The article of an
  item has the id \<open>feedUrl_guid\<close> (a missing guid prints as \<^verbatim>\<open>undefined\<close>) and, as its
  content, the item's \<open>content\<close>, or the snippet when \<open>content\<close> is missing or empty, or the
  empty string when that is missing too.
\<close>

theorem fetch_articles_todays_items:
  assumes "feeds b = Some fs" and "\<forall>u\<in>set fs. parses w u"
  shows "(\<forall>articles top. fst (fetch_articles_handler w b) = (200, Articles articles top) \<longrightarrow>
            articles = concat (map (todays_articles w (local_midnight w (now w))) fs))
       \<and> (truthy (OPENAI_API_KEY w) \<and> insert_fault w = NoFault
            \<and> model_text w (instruction (openAiContext b) @
                 promptText (concat (map (todays_articles w (local_midnight w (now w))) fs))) = Some text \<longrightarrow>
            fst (fetch_articles_handler w b) =
              (200, Articles (concat (map (todays_articles w (local_midnight w (now w))) fs)) (trim text)))
       \<and> (\<forall>u f. feed_reply w (Some u) = Resolved (Some f) \<longrightarrow>
            todays_articles w (local_midnight w (now w)) u =
              map (make_article u) (filter (published_today w (local_midnight w (now w))) (items f)))
       \<and> (\<forall>item start. published_today w start item \<longleftrightarrow>
            (\<exists>s t. pubDate item = Some s \<and> date_parse w s = Some t \<and> start \<le> t))
       \<and> (\<forall>u item. article_id (make_article u item) =
            u @ ''_'' @ (case guid item of None \<Rightarrow> ''undefined'' | Some g \<Rightarrow> g))
       \<and> (\<forall>u item. article_content (make_article u item) =
            (case content item of
               Some c \<Rightarrow> if c \<noteq> [] then c else (case contentSnippet item of None \<Rightarrow> [] | Some s \<Rightarrow> s)
             | None \<Rightarrow> (case contentSnippet item of None \<Rightarrow> [] | Some s \<Rightarrow> s)))"
proof -
  let ?arts = "concat (map (todays_articles w (local_midnight w (now w))) fs)"
  have run: "fetch_articles_handler w b =
     (if \<not> truthy (OPENAI_API_KEY w)
      then ((500, Message ''OpenAI API key is not set.''), w\<lparr>trace := trace w @ parse_calls fs\<rparr>)
      else rank_and_log (w\<lparr>trace := trace w @ parse_calls fs\<rparr>) (the (OPENAI_API_KEY w))
             (instruction (openAiContext b) @ promptText ?arts) ?arts)"
    using handler_all_parse [OF assms] by (simp add: startOfToday_def)
  have only: "\<forall>articles top. fst (fetch_articles_handler w b) = (200, Articles articles top) \<longrightarrow>
      articles = ?arts"
    unfolding run
    by (simp add: rank_and_log_cases split: option.splits store_fault.splits)
  have full: "truthy (OPENAI_API_KEY w) \<and> insert_fault w = NoFault
      \<and> model_text w (instruction (openAiContext b) @ promptText ?arts) = Some text \<longrightarrow>
      fst (fetch_articles_handler w b) = (200, Articles ?arts (trim text))"
    unfolding run by (simp add: rank_and_log_cases split: store_fault.splits)
  have feed: "\<forall>u f. feed_reply w (Some u) = Resolved (Some f) \<longrightarrow>
      todays_articles w (local_midnight w (now w)) u =
        map (make_article u) (filter (published_today w (local_midnight w (now w))) (items f))"
    by (simp add: todays_articles_def parsed_feed_Some)
  have today: "\<forall>item start. published_today w start item \<longleftrightarrow>
      (\<exists>s t. pubDate item = Some s \<and> date_parse w s = Some t \<and> start \<le> t)"
    by (auto simp: published_today_def new_Date_def split: option.splits)
  have ident: "\<forall>u item. article_id (make_article u item) =
      u @ ''_'' @ (case guid item of None \<Rightarrow> ''undefined'' | Some g \<Rightarrow> g)"
    by (simp add: make_article_def template_def)
  have cont: "\<forall>u item. article_content (make_article u item) =
      (case content item of
         Some c \<Rightarrow> if c \<noteq> [] then c else (case contentSnippet item of None \<Rightarrow> [] | Some s \<Rightarrow> s)
       | None \<Rightarrow> (case contentSnippet item of None \<Rightarrow> [] | Some s \<Rightarrow> s))"
    by (simp add: make_article_def content_or_snippet_def truthy_def split: option.splits)
  from only full feed today ident cont show ?thesis by blast
qed

text \<open>The two feeds of the concrete world: the item of 08:00 and the item of midnight are
  returned, in this order; the item of the evening before is not. Both ids end in
  \<open>_g1\<close> and differ by the feed url; the second article has the snippet as content.\<close>

theorem fetch_articles_todays_items_witness:
  "feeds \<lparr>feeds = Some [url_a, url_b], openAiContext = Some ''tech news''\<rparr> = Some [url_a, url_b]
   \<and> parses demo_world url_a \<and> parses demo_world url_b
   \<and> fst (fetch_articles_handler demo_world \<lparr>feeds = Some [url_a, url_b], openAiContext = Some ''tech news''\<rparr>)
       = (200, Articles [article_a1, article_b1] demo_top)"
  using fetch_articles_todays_items
    [of "\<lparr>feeds = Some [url_a, url_b], openAiContext = Some ''tech news''\<rparr>" "[url_a, url_b]" demo_world demo_answer]
  by (simp add: handler_defs property_defs demo_defs)

section \<open>POST /fetch-articles: failures\<close>

text \<open>
  C2. When some feed of the request does not parse, the list of feeds splits at the first
  such feed: the response is 500 with \<^verbatim>\<open>Error fetching articles from \<close> and the url of
  that feed; the calls made are the parser calls for the feeds before it and for it, so
  no later feed is asked for and neither the completion API nor the scan log is touched;
  the body carries a message and no articles, although the earlier feeds parsed.
\<close>

theorem fetch_articles_feed_failure:
  assumes "feeds b = Some fs" and "\<exists>u\<in>set fs. \<not> parses w u"
  shows "\<exists>ok bad rest. fs = ok @ bad # rest \<and> (\<forall>u\<in>set ok. parses w u) \<and> \<not> parses w bad
       \<and> fst (fetch_articles_handler w b) = (500, Message (''Error fetching articles from '' @ bad))
       \<and> new_calls w (snd (fetch_articles_handler w b)) = parse_calls (ok @ [bad])
       \<and> scan_logs (snd (fetch_articles_handler w b)) = scan_logs w"
proof -
  from first_failure_split [OF assms(2)]
  obtain ok bad rest where split: "fs = ok @ bad # rest"
    and ok: "\<forall>u\<in>set ok. parses w u" and bad: "\<not> parses w bad"
    by blast
  from assms(1) split have "feeds b = Some (ok @ bad # rest)" by simp
  from handler_feed_failure [OF this ok bad]
  have "fetch_articles_handler w b =
      ((500, Message (''Error fetching articles from '' @ bad)),
       w\<lparr>trace := trace w @ parse_calls (ok @ [bad])\<rparr>)" .
  then have "fst (fetch_articles_handler w b) = (500, Message (''Error fetching articles from '' @ bad))
      \<and> new_calls w (snd (fetch_articles_handler w b)) = parse_calls (ok @ [bad])
      \<and> scan_logs (snd (fetch_articles_handler w b)) = scan_logs w"
    by simp
  with split ok bad show ?thesis by blast
qed

theorem fetch_articles_feed_failure_witness:
  "feeds \<lparr>feeds = Some [url_a, url_bad, url_b], openAiContext = Some ''tech news''\<rparr> = Some [url_a, url_bad, url_b]
   \<and> parses demo_world url_a \<and> \<not> parses demo_world url_bad
   \<and> fst (fetch_articles_handler demo_world \<lparr>feeds = Some [url_a, url_bad, url_b], openAiContext = Some ''tech news''\<rparr>)
       = (500, Message ''Error fetching articles from https://bad.example/rss'')
   \<and> new_calls demo_world (snd (fetch_articles_handler demo_world \<lparr>feeds = Some [url_a, url_bad, url_b], openAiContext = Some ''tech news''\<rparr>))
       = [ParseURL (Some url_a), ParseURL (Some url_bad)]
   \<and> scan_logs (snd (fetch_articles_handler demo_world \<lparr>feeds = Some [url_a, url_bad, url_b], openAiContext = Some ''tech news''\<rparr>)) = []"
  using fetch_articles_feed_failure
    [of "\<lparr>feeds = Some [url_a, url_bad, url_b], openAiContext = Some ''tech news''\<rparr>" "[url_a, url_bad, url_b]" demo_world]
  by (simp add: handler_defs property_defs demo_defs)

text \<open>
  C3. The scan log changes only in a request that is answered with 200. Whenever the
  insert is issued, it is the last call, it follows the call of the completion API
  directly, and that call returned a text. A feed that does not parse, a credential that
  is not set, and a failed call of the completion API each give 500, hence an unchanged
  scan log.
\<close>

theorem scan_log_only_after_model_success:
  "(status (fetch_articles_handler w b) \<noteq> 200 \<longrightarrow>
      scan_logs (snd (fetch_articles_handler w b)) = scan_logs w)
   \<and> (\<forall>t. ScanLogsInsert t \<in> set (new_calls w (snd (fetch_articles_handler w b))) \<longrightarrow>
        (\<exists>us key prompt.
           new_calls w (snd (fetch_articles_handler w b)) =
             parse_calls us @ [CompletionsPost key prompt, ScanLogsInsert t]
           \<and> model_text w prompt \<noteq> None))
   \<and> (\<forall>fs. feeds b = Some fs \<and> (\<exists>u\<in>set fs. \<not> parses w u) \<longrightarrow>
        status (fetch_articles_handler w b) = 500)
   \<and> (\<not> truthy (OPENAI_API_KEY w) \<longrightarrow> status (fetch_articles_handler w b) = 500)
   \<and> (\<forall>fs. feeds b = Some fs \<and> (\<forall>u\<in>set fs. parses w u) \<and> truthy (OPENAI_API_KEY w)
        \<and> model_text w (instruction (openAiContext b) @
             promptText (concat (map (todays_articles w (local_midnight w (now w))) fs))) = None \<longrightarrow>
        status (fetch_articles_handler w b) = 500)"
proof (cases "feeds b")
  case None
  from handler_no_feeds [OF None, of w] show ?thesis
    by (simp add: status_def None)
next
  case (Some fs)
  show ?thesis
  proof (cases "\<forall>u\<in>set fs. parses w u")
    case False
    then have "\<exists>u\<in>set fs. \<not> parses w u" by simp
    from first_failure_split [OF this]
    obtain ok bad rest where split: "fs = ok @ bad # rest"
      and ok: "\<forall>u\<in>set ok. parses w u" and bad: "\<not> parses w bad"
      by blast
    from Some split have "feeds b = Some (ok @ bad # rest)" by simp
    from handler_feed_failure [OF this ok bad]
    have run: "fetch_articles_handler w b =
        ((500, Message (''Error fetching articles from '' @ bad)),
         w\<lparr>trace := trace w @ parse_calls (ok @ [bad])\<rparr>)" .
    have a: "status (fetch_articles_handler w b) = 500"
      and c: "scan_logs (snd (fetch_articles_handler w b)) = scan_logs w"
      and d: "new_calls w (snd (fetch_articles_handler w b)) = parse_calls (ok @ [bad])"
      unfolding run by (simp_all add: status_def)
    have e: "\<forall>t. ScanLogsInsert t \<notin> set (new_calls w (snd (fetch_articles_handler w b)))"
      unfolding d by simp
    from a c e False Some show ?thesis by simp
  next
    case True
    let ?arts = "concat (map (todays_articles w (local_midnight w (now w))) fs)"
    let ?w1 = "w\<lparr>trace := trace w @ parse_calls fs\<rparr>"
    let ?prompt = "instruction (openAiContext b) @ promptText ?arts"
    have run: "fetch_articles_handler w b =
       (if \<not> truthy (OPENAI_API_KEY w)
        then ((500, Message ''OpenAI API key is not set.''), ?w1)
        else rank_and_log ?w1 (the (OPENAI_API_KEY w)) ?prompt ?arts)"
      using handler_all_parse [OF Some True] by (simp add: startOfToday_def)
    show ?thesis
    proof (cases "truthy (OPENAI_API_KEY w)")
      case nokey: False
      with run have r: "fetch_articles_handler w b =
          ((500, Message ''OpenAI API key is not set.''), ?w1)" by simp
      show ?thesis
        unfolding r using nokey Some True by (simp add: status_def)
    next
      case key: True
      with run have r: "fetch_articles_handler w b =
          rank_and_log ?w1 (the (OPENAI_API_KEY w)) ?prompt ?arts" by simp
      show ?thesis
      proof (cases "model_text w ?prompt")
        case None
        then show ?thesis
          unfolding r using key Some True
          by (simp add: rank_and_log_cases status_def new_calls_def)
      next
        case (Some answer)
        have ex: "\<exists>us k p. parse_calls fs @ [CompletionsPost (the (OPENAI_API_KEY w)) ?prompt, ScanLogsInsert t] =
              parse_calls us @ [CompletionsPost k p, ScanLogsInsert t] \<and> model_text w p \<noteq> None" for t
          using Some by blast
        show ?thesis
          unfolding r using key Some True \<open>feeds b = Some fs\<close> ex
          by (simp add: rank_and_log_cases status_def new_calls_def split: store_fault.splits)
      qed
    qed
  qed
qed

text \<open>One run in which the completion API times out, one without the key, one with a
  failing feed, and a successful one with its trace.\<close>

theorem scan_log_only_after_model_success_witness:
  "status (fetch_articles_handler (demo_world\<lparr>completion_reply := (\<lambda>p. Rejected ''timeout'')\<rparr>)
      \<lparr>feeds = Some [url_a], openAiContext = Some ''tech news''\<rparr>) = 500
   \<and> scan_logs (snd (fetch_articles_handler (demo_world\<lparr>completion_reply := (\<lambda>p. Rejected ''timeout'')\<rparr>)
      \<lparr>feeds = Some [url_a], openAiContext = Some ''tech news''\<rparr>)) = scan_logs demo_world
   \<and> status (fetch_articles_handler (demo_world\<lparr>OPENAI_API_KEY := None\<rparr>)
      \<lparr>feeds = Some [url_a], openAiContext = Some ''tech news''\<rparr>) = 500
   \<and> status (fetch_articles_handler demo_world
      \<lparr>feeds = Some [url_a, url_bad], openAiContext = Some ''tech news''\<rparr>) = 500
   \<and> status (fetch_articles_handler demo_world
      \<lparr>feeds = Some [url_a], openAiContext = Some ''tech news''\<rparr>) = 200
   \<and> new_calls demo_world (snd (fetch_articles_handler demo_world
      \<lparr>feeds = Some [url_a], openAiContext = Some ''tech news''\<rparr>))
       = [ParseURL (Some url_a),
          CompletionsPost ''sk-demo'' (instruction (Some ''tech news'') @ promptText [article_a1]),
          ScanLogsInsert 1714644003000]
   \<and> model_text demo_world (instruction (Some ''tech news'') @ promptText [article_a1]) = Some demo_answer"
  using
    scan_log_only_after_model_success [of "demo_world\<lparr>completion_reply := (\<lambda>p. Rejected ''timeout'')\<rparr>"
      "\<lparr>feeds = Some [url_a], openAiContext = Some ''tech news''\<rparr>"]
    scan_log_only_after_model_success [of demo_world
      "\<lparr>feeds = Some [url_a], openAiContext = Some ''tech news''\<rparr>"]
  by (simp add: handler_defs property_defs demo_defs)

text \<open>
  C4, as stated, asks that every request made without the credential is answered with
  the message about the credential. The key is looked at after the loop over the feeds:
  with a feed that does not parse, the answer is the message about that feed.
\<close>

theorem credential_message_counterexample:
  "OPENAI_API_KEY (demo_world\<lparr>OPENAI_API_KEY := None\<rparr>) = None
   \<and> fst (fetch_articles_handler (demo_world\<lparr>OPENAI_API_KEY := None\<rparr>)
        \<lparr>feeds = Some [url_bad], openAiContext = Some ''tech news''\<rparr>)
       = (500, Message ''Error fetching articles from https://bad.example/rss'')
   \<and> fst (fetch_articles_handler (demo_world\<lparr>OPENAI_API_KEY := None\<rparr>)
        \<lparr>feeds = Some [url_bad], openAiContext = Some ''tech news''\<rparr>)
       \<noteq> (500, Message ''OpenAI API key is not set.'')"
  by (simp add: handler_defs demo_defs)

text \<open>
  C4, amended. Every request made while the credential is not set (missing or empty) is
  answered with 500, calls neither the completion API nor the scan-log insert, and
  leaves the scan log as it was. The message is \<^verbatim>\<open>OpenAI API key is not set.\<close> when
  \<open>feeds\<close> is present and every feed parsed.
\<close>

theorem fetch_articles_without_credential:
  assumes "\<not> truthy (OPENAI_API_KEY w)"
  shows "status (fetch_articles_handler w b) = 500
       \<and> (\<forall>c\<in>set (new_calls w (snd (fetch_articles_handler w b))).
            \<not> is_completion_call c \<and> \<not> is_insert_call c)
       \<and> scan_logs (snd (fetch_articles_handler w b)) = scan_logs w
       \<and> (\<forall>fs. feeds b = Some fs \<and> (\<forall>u\<in>set fs. parses w u) \<longrightarrow>
            fst (fetch_articles_handler w b) = (500, Message ''OpenAI API key is not set.''))"
proof (cases "feeds b")
  case None
  from handler_no_feeds [OF None, of w] show ?thesis
    by (simp add: status_def None)
next
  case (Some fs)
  show ?thesis
  proof (cases "\<forall>u\<in>set fs. parses w u")
    case False
    then have "\<exists>u\<in>set fs. \<not> parses w u" by simp
    from first_failure_split [OF this]
    obtain ok bad rest where split: "fs = ok @ bad # rest"
      and ok: "\<forall>u\<in>set ok. parses w u" and bad: "\<not> parses w bad"
      by blast
    from Some split have "feeds b = Some (ok @ bad # rest)" by simp
    from handler_feed_failure [OF this ok bad]
    have run: "fetch_articles_handler w b =
        ((500, Message (''Error fetching articles from '' @ bad)),
         w\<lparr>trace := trace w @ parse_calls (ok @ [bad])\<rparr>)" .
    show ?thesis
      unfolding run using False Some by (simp add: status_def)
  next
    case True
    from handler_all_parse [OF Some True] assms
    have run: "fetch_articles_handler w b =
        ((500, Message ''OpenAI API key is not set.''), w\<lparr>trace := trace w @ parse_calls fs\<rparr>)"
      by simp
    show ?thesis
      unfolding run using True Some by (simp add: status_def)
  qed
qed

text \<open>The key set to the empty string counts as not set.\<close>

theorem fetch_articles_without_credential_witness:
  "\<not> truthy (OPENAI_API_KEY (demo_world\<lparr>OPENAI_API_KEY := Some []\<rparr>))
   \<and> parses demo_world url_a
   \<and> fst (fetch_articles_handler (demo_world\<lparr>OPENAI_API_KEY := Some []\<rparr>)
        \<lparr>feeds = Some [url_a], openAiContext = Some ''tech news''\<rparr>)
       = (500, Message ''OpenAI API key is not set.'')
   \<and> new_calls (demo_world\<lparr>OPENAI_API_KEY := Some []\<rparr>)
        (snd (fetch_articles_handler (demo_world\<lparr>OPENAI_API_KEY := Some []\<rparr>)
          \<lparr>feeds = Some [url_a], openAiContext = Some ''tech news''\<rparr>))
       = [ParseURL (Some url_a)]
   \<and> scan_logs (snd (fetch_articles_handler (demo_world\<lparr>OPENAI_API_KEY := Some []\<rparr>)
        \<lparr>feeds = Some [url_a], openAiContext = Some ''tech news''\<rparr>)) = []"
  using fetch_articles_without_credential
    [of "demo_world\<lparr>OPENAI_API_KEY := Some []\<rparr>" "\<lparr>feeds = Some [url_a], openAiContext = Some ''tech news''\<rparr>"]
  by (simp add: handler_defs property_defs demo_defs)

text \<open>
  C10, as stated, has the completion API called for every request with no articles and
  the model's raw text returned. Without the credential the call is not made: the answer
  is 500 and the trace stays empty. With the credential, the text comes back trimmed.
\<close>

theorem empty_scan_counterexample:
  "feeds \<lparr>feeds = Some [], openAiContext = Some ''tech news''\<rparr> = Some []
   \<and> fetch_articles_handler (demo_world\<lparr>OPENAI_API_KEY := None\<rparr>)
        \<lparr>feeds = Some [], openAiContext = Some ''tech news''\<rparr>
       = ((500, Message ''OpenAI API key is not set.''), demo_world\<lparr>OPENAI_API_KEY := None\<rparr>)
   \<and> trace (demo_world\<lparr>OPENAI_API_KEY := None\<rparr>) = []
   \<and> model_text demo_world (instruction (Some ''tech news'')) = Some demo_answer
   \<and> fst (fetch_articles_handler demo_world \<lparr>feeds = Some [], openAiContext = Some ''tech news''\<rparr>)
       = (200, Articles [] demo_top)
   \<and> demo_top \<noteq> demo_answer"
  by (simp add: handler_defs property_defs demo_defs)

text \<open>
  C10, amended. For a request whose feeds all parse and give no article of today (in
  particular for an empty list of feeds), made while the credential is set: the handler
  does not stop early. After the parser calls it calls the completion API once, with the
  instruction line alone as prompt. When that call returns a text, it issues the insert
  with the time of the second clock reading, and when the store takes the insert, the
  row is written and the response is 200 with no articles and the text, trimmed of the
  white space around it.
\<close>

theorem fetch_articles_with_no_articles:
  assumes "feeds b = Some fs" and "\<forall>u\<in>set fs. parses w u"
    and "concat (map (todays_articles w (local_midnight w (now w))) fs) = []"
    and "OPENAI_API_KEY w = Some key" and "key \<noteq> []"
  shows "new_calls w (snd (fetch_articles_handler w b)) =
           parse_calls fs @ [CompletionsPost key (instruction (openAiContext b))] @
             (case model_text w (instruction (openAiContext b)) of
                None \<Rightarrow> [] | Some t \<Rightarrow> [ScanLogsInsert (now_at_insert w)])
       \<and> (model_text w (instruction (openAiContext b)) = Some answer \<and> insert_fault w = NoFault \<longrightarrow>
            fst (fetch_articles_handler w b) = (200, Articles [] (trim answer))
            \<and> scan_logs (snd (fetch_articles_handler w b)) =
                scan_logs w @ [\<lparr>scan_date = now_at_insert w\<rparr>])"
proof -
  have key: "truthy (OPENAI_API_KEY w)" "the (OPENAI_API_KEY w) = key"
    using assms(4,5) by (simp_all add: truthy_def)
  have run: "fetch_articles_handler w b =
      rank_and_log (w\<lparr>trace := trace w @ parse_calls fs\<rparr>) key (instruction (openAiContext b)) []"
    using handler_all_parse [OF assms(1,2)] key assms(3) by (simp add: startOfToday_def)
  show ?thesis
    unfolding run
    by (simp add: rank_and_log_cases new_calls_def split: option.splits store_fault.splits)
qed

text \<open>An empty list of feeds in the concrete world: one call of the completion API, the
  insert, the row, and the answer without its no-break space and line feed.\<close>

theorem fetch_articles_with_no_articles_witness:
  "feeds \<lparr>feeds = Some [], openAiContext = Some ''tech news''\<rparr> = Some []
   \<and> OPENAI_API_KEY demo_world = Some ''sk-demo'' \<and> insert_fault demo_world = NoFault
   \<and> model_text demo_world (instruction (Some ''tech news'')) = Some demo_answer
   \<and> new_calls demo_world (snd (fetch_articles_handler demo_world \<lparr>feeds = Some [], openAiContext = Some ''tech news''\<rparr>))
       = [CompletionsPost ''sk-demo'' (instruction (Some ''tech news'')), ScanLogsInsert 1714644003000]
   \<and> fst (fetch_articles_handler demo_world \<lparr>feeds = Some [], openAiContext = Some ''tech news''\<rparr>)
       = (200, Articles [] demo_top)
   \<and> scan_logs (snd (fetch_articles_handler demo_world \<lparr>feeds = Some [], openAiContext = Some ''tech news''\<rparr>))
       = [\<lparr>scan_date = 1714644003000\<rparr>]"
  using fetch_articles_with_no_articles
    [of "\<lparr>feeds = Some [], openAiContext = Some ''tech news''\<rparr>" "[]" demo_world "''sk-demo''" demo_answer]
  by (simp add: model_text_def first_choice_text_def trim_def white_space_def parse_calls_def
        demo_world_def demo_answer_def demo_top_def)

section \<open>Bodies with a missing field\<close>

text \<open>
  C9, as stated, asks for a client error before any outside call when a required field is
  missing. No handler checks its body. Without \<open>openAiContext\<close> the request runs to its
  end: the feed is fetched, the completion API is called, the row is written and the
  answer is 200. Without \<open>feeds\<close> the answer is 500, and without \<open>url\<close> the parser is
  called with \<^verbatim>\<open>undefined\<close>.
\<close>

theorem missing_field_counterexample:
  "openAiContext \<lparr>feeds = Some [url_b], openAiContext = None\<rparr> = None
   \<and> fst (fetch_articles_handler demo_world \<lparr>feeds = Some [url_b], openAiContext = None\<rparr>)
       = (200, Articles [article_b1] demo_top)
   \<and> new_calls demo_world (snd (fetch_articles_handler demo_world \<lparr>feeds = Some [url_b], openAiContext = None\<rparr>))
       = [ParseURL (Some url_b),
          CompletionsPost ''sk-demo'' (instruction None @ promptText [article_b1]),
          ScanLogsInsert 1714644003000]
   \<and> fst (fetch_articles_handler demo_world \<lparr>feeds = None, openAiContext = Some ''tech news''\<rparr>)
       = (500, Message ''Error fetching articles'')
   \<and> validate_feed_handler demo_world \<lparr>url = None\<rparr>
       = ((500, Message ''Error parsing RSS feed''), demo_world\<lparr>trace := [ParseURL None]\<rparr>)"
  by (simp add: handler_defs property_defs demo_defs)

text \<open>
  C9, amended. A body with a missing field is handled like any other. Without \<open>url\<close>,
  /validate-feed calls the parser once with \<^verbatim>\<open>undefined\<close> and answers by what the
  parser does. Without \<open>feeds\<close>, /fetch-articles answers 500 with
  \<^verbatim>\<open>Error fetching articles\<close> and has made no call. Without \<open>openAiContext\<close>,
  /fetch-articles does exactly what it does when \<open>openAiContext\<close> is the string
  \<^verbatim>\<open>undefined\<close>.
\<close>

theorem missing_fields_are_not_checked:
  "(url vb = None \<longrightarrow>
      fst (validate_feed_handler w vb) =
        (case feed_reply w None of
           Rejected e \<Rightarrow> (500, Message ''Error parsing RSS feed'')
         | Resolved None \<Rightarrow> (400, Message ''Invalid RSS feed format'')
         | Resolved (Some f) \<Rightarrow> (200, Message ''RSS feed is valid''))
      \<and> new_calls w (snd (validate_feed_handler w vb)) = [ParseURL None])
   \<and> (feeds b = None \<longrightarrow>
      fetch_articles_handler w b = ((500, Message ''Error fetching articles''), w))
   \<and> (openAiContext b = None \<longrightarrow>
      fetch_articles_handler w b = fetch_articles_handler w (b\<lparr>openAiContext := Some ''undefined''\<rparr>))"
proof -
  have v: "url vb = None \<Longrightarrow>
      fst (validate_feed_handler w vb) =
        (case feed_reply w None of
           Rejected e \<Rightarrow> (500, Message ''Error parsing RSS feed'')
         | Resolved None \<Rightarrow> (400, Message ''Invalid RSS feed format'')
         | Resolved (Some f) \<Rightarrow> (200, Message ''RSS feed is valid''))
      \<and> new_calls w (snd (validate_feed_handler w vb)) = [ParseURL None]"
    by (simp add: validate_feed_handler_def parser_parseURL_def record_call_def new_calls_def
          split: js_result.splits option.splits)
  have i: "openAiContext b = None \<Longrightarrow> instruction (openAiContext b) = instruction (Some ''undefined'')"
    by (simp add: instruction_def template_def)
  have c: "openAiContext b = None \<Longrightarrow>
      fetch_articles_handler w b = fetch_articles_handler w (b\<lparr>openAiContext := Some ''undefined''\<rparr>)"
    using i by (simp add: fetch_articles_handler_def Let_def split: option.splits prod.splits sum.splits)
  from v c show ?thesis
    by (simp add: handler_no_feeds)
qed

theorem missing_fields_are_not_checked_witness:
  "url \<lparr>url = None\<rparr> = None
   \<and> fst (validate_feed_handler demo_world \<lparr>url = None\<rparr>) = (500, Message ''Error parsing RSS feed'')
   \<and> new_calls demo_world (snd (validate_feed_handler demo_world \<lparr>url = None\<rparr>)) = [ParseURL None]
   \<and> fetch_articles_handler demo_world \<lparr>feeds = None, openAiContext = Some ''tech news''\<rparr>
       = ((500, Message ''Error fetching articles''), demo_world)
   \<and> fetch_articles_handler demo_world \<lparr>feeds = Some [url_b], openAiContext = None\<rparr>
       = fetch_articles_handler demo_world \<lparr>feeds = Some [url_b], openAiContext = Some ''undefined''\<rparr>"
  using missing_fields_are_not_checked
    [of "\<lparr>url = None\<rparr>" demo_world "\<lparr>feeds = None, openAiContext = Some ''tech news''\<rparr>"]
    missing_fields_are_not_checked
    [of "\<lparr>url = None\<rparr>" demo_world "\<lparr>feeds = Some [url_b], openAiContext = None\<rparr>"]
  by (simp add: demo_world_def demo_feed_reply_def url_a_def url_b_def)

end
